theory Spec2Isabelle
  imports Main "HOL-Library.Sublist"
begin

section \<open>The analytics interceptor (plugins/interceptors/analytics/analytics.go)\<close>

text \<open>
  A shallow embedding of the Go package \<^verbatim>\<open>analytics\<close>. Go strings and byte slices are
  lists of bytes (\<^typ>\<open>string\<close>); a Go \<^verbatim>\<open>error\<close> value is its message, and a
  nil-able error is an \<^typ>\<open>string option\<close>. The collaborators that live outside the
  package (the response sink behind \<^verbatim>\<open>http.ResponseWriter\<close>, the downstream handler,
  \<^verbatim>\<open>json.Marshal\<close>, URL parsing and the HTTP client) are parameters of the model, so
  every theorem holds for all of their behaviours.
\<close>

subsection \<open>Byte streams, panics, and the few library functions the package calls\<close>

type_synonym bytes = string
type_synonym err = string

text \<open>
  An \<^verbatim>\<open>io.Reader\<close>, seen as the sequence of results its \<^verbatim>\<open>Read\<close> calls give: chunks
  of data, closed by end-of-file or by a read error.
\<close>

datatype reader = EOF | Failure err | Data bytes reader

text \<open>\<^verbatim>\<open>io.ReadAll\<close>: everything read before the end, and the error unless it is EOF.\<close>

fun ReadAll :: "reader \<Rightarrow> bytes \<times> err option" where
  "ReadAll EOF = ([], None)"
| "ReadAll (Failure e) = ([], Some e)"
| "ReadAll (Data b rest) = (case ReadAll rest of (bs, e) \<Rightarrow> (b @ bs, e))"

text \<open>\<^verbatim>\<open>ioutil.NopCloser(bytes.NewBuffer(b))\<close>: a reader over the bytes \<open>b\<close> that never fails.\<close>

definition bytes_NewBuffer :: "bytes \<Rightarrow> reader" where
  "bytes_NewBuffer b = (if b = [] then EOF else Data b EOF)"

datatype panic = IndexOutOfRange

text \<open>Indexing a Go slice: out of range is a run-time panic.\<close>

definition index :: "'a list \<Rightarrow> nat \<Rightarrow> panic + 'a" where
  "index xs i = (if i < length xs then Inr (xs ! i) else Inl IndexOutOfRange)"

text \<open>
  \<^verbatim>\<open>strings.Split(s, sep)\<close> for a separator of one byte, as the package calls it
  (\<^verbatim>\<open>","\<close> and \<^verbatim>\<open>":"\<close>): cut at the first separator, go on with the rest, and close
  with what is left.
\<close>

function strings_Split :: "string \<Rightarrow> char \<Rightarrow> string list" where
  "strings_Split s sep =
     (case dropWhile (\<lambda>c. c \<noteq> sep) s of
        [] \<Rightarrow> [s]
      | _ # rest \<Rightarrow> takeWhile (\<lambda>c. c \<noteq> sep) s # strings_Split rest sep)"
  by pat_completeness auto
termination
proof (relation "measure (\<lambda>(s, sep). length s)")
  show "wf (measure (\<lambda>(s, sep). length s))" by simp
next
  fix s :: string and sep :: char and x rest
  assume d: "dropWhile (\<lambda>c. c \<noteq> sep) s = x # rest"
  have "length (dropWhile (\<lambda>c. c \<noteq> sep) s) \<le> length s"
    by (rule length_dropWhile_le)
  with d show "((rest, sep), (s, sep)) \<in> measure (\<lambda>(s, sep). length s)" by simp
qed

declare strings_Split.simps [simp del]

text \<open>
  \<^verbatim>\<open>textproto.CanonicalMIMEHeaderKey\<close>: a key made of token bytes gets an upper-case
  letter first and after each hyphen and lower-case letters elsewhere; any other key is
  left as it is.
\<close>

definition validHeaderFieldByte :: "char \<Rightarrow> bool" where
  "validHeaderFieldByte c =
     (c \<in> set ''abcdefghijklmnopqrstuvwxyz'' \<or> c \<in> set ''ABCDEFGHIJKLMNOPQRSTUVWXYZ'' \<or>
      c \<in> set ''0123456789'' \<or> c \<in> set ''!#$%&'*+-.^_`|~'')"

definition toUpper :: "char \<Rightarrow> char" where
  "toUpper c =
     (case map_of (zip ''abcdefghijklmnopqrstuvwxyz'' ''ABCDEFGHIJKLMNOPQRSTUVWXYZ'') c of
        Some u \<Rightarrow> u | None \<Rightarrow> c)"

definition toLower :: "char \<Rightarrow> char" where
  "toLower c =
     (case map_of (zip ''ABCDEFGHIJKLMNOPQRSTUVWXYZ'' ''abcdefghijklmnopqrstuvwxyz'') c of
        Some l \<Rightarrow> l | None \<Rightarrow> c)"

fun canonicalize :: "bool \<Rightarrow> string \<Rightarrow> string" where
  "canonicalize upper [] = []"
| "canonicalize upper (c # cs) =
     (let c' = (if upper then toUpper c else toLower c)
      in c' # canonicalize (c' = CHR ''-'') cs)"

definition CanonicalMIMEHeaderKey :: "string \<Rightarrow> string" where
  "CanonicalMIMEHeaderKey s =
     (if list_all validHeaderFieldByte s then canonicalize True s else s)"

text \<open>
  \<^verbatim>\<open>http.Header\<close> is a map from canonical keys to the list of values;
  \<^verbatim>\<open>Get\<close> gives the first value of a key, or the empty string.
\<close>

type_synonym header = "string \<rightharpoonup> string list"

definition Header_Get :: "header \<Rightarrow> string \<Rightarrow> string" where
  "Header_Get h key =
     (case h (CanonicalMIMEHeaderKey key) of
        None \<Rightarrow> []
      | Some [] \<Rightarrow> []
      | Some (v # _) \<Rightarrow> v)"

definition Header_Set :: "header \<Rightarrow> string \<Rightarrow> string \<Rightarrow> header" where
  "Header_Set h key v = h(CanonicalMIMEHeaderKey key \<mapsto> [v])"

text \<open>\<^verbatim>\<open>time.Duration.Milliseconds\<close>: nanoseconds over \<open>10\<^sup>6\<close>, truncated towards zero.\<close>

definition Milliseconds :: "int \<Rightarrow> int" where
  "Milliseconds d = sgn d * (\<bar>d\<bar> div 1000000)"

subsection \<open>Requests\<close>

record cookie =
  Name :: string
  Value :: string

text \<open>
  The fields of \<^verbatim>\<open>http.Request\<close> the package reads. \<open>Cookies\<close> is the list of cookies
  that net/http parses out of the request's Cookie header lines, in their order;
  \<open>Body\<close> is \<open>None\<close> for a nil body.
\<close>

record request =
  Method :: string
  URL_Path :: string
  Header :: header
  Cookies :: "cookie list"
  RemoteAddr :: string
  Body :: "reader option"

definition UserAgent :: "request \<Rightarrow> string" where
  "UserAgent r = Header_Get (Header r) ''User-Agent''"

text \<open>\<^verbatim>\<open>r.Cookie(name)\<close>: the first cookie of that name, or \<^verbatim>\<open>http.ErrNoCookie\<close>.\<close>

definition Request_Cookie :: "request \<Rightarrow> string \<Rightarrow> err + cookie" where
  "Request_Cookie r name =
     (case find (\<lambda>c. Name c = name) (Cookies r) of
        None \<Rightarrow> Inl ''http: named cookie not present''
      | Some c \<Rightarrow> Inr c)"

subsection \<open>The response sink and the downstream handler\<close>

text \<open>
  The method set of an \<^verbatim>\<open>http.ResponseWriter\<close> over a sink whose state has type \<open>'s\<close>:
  \<^verbatim>\<open>WriteHeader(code)\<close> changes the sink, \<^verbatim>\<open>Write(b)\<close> changes it and returns a byte
  count and an error.
\<close>

record 's http_ResponseWriter =
  rwWriteHeader :: "int \<Rightarrow> 's \<Rightarrow> 's"
  rwWrite :: "bytes \<Rightarrow> 's \<Rightarrow> (int \<times> err option) \<times> 's"

text \<open>
  What a downstream handler does with the writer it is given: it returns, or sets a
  status and goes on, or writes bytes and goes on in a way that may depend on what
  \<^verbatim>\<open>Write\<close> returned. A handler (\<^verbatim>\<open>http.Handler\<close>) chooses this from the request.
\<close>

datatype prog =
    Return
  | CallWriteHeader int prog
  | CallWrite bytes "int \<times> err option \<Rightarrow> prog"

type_synonym handler = "request \<Rightarrow> prog"

text \<open>A call the handler made on its writer, with what \<^verbatim>\<open>Write\<close> returned to it.\<close>

datatype call = WriteHeaderCall int | WriteCall bytes "int \<times> err option"

text \<open>
  \<^verbatim>\<open>next.ServeHTTP(w, r)\<close>: runs the handler's program against a writer with the
  methods \<open>ops\<close> and the state \<open>s\<close>; gives the calls made and the writer's final state.
\<close>

primrec serveHTTP :: "prog \<Rightarrow> 's http_ResponseWriter \<Rightarrow> 's \<Rightarrow> call list \<times> 's" where
  "serveHTTP Return ops s = ([], s)"
| "serveHTTP (CallWriteHeader code p) ops s =
     (case serveHTTP p ops (rwWriteHeader ops code s) of
        (tr, s') \<Rightarrow> (WriteHeaderCall code # tr, s'))"
| "serveHTTP (CallWrite b k) ops s =
     (case rwWrite ops b s of
        (res, s1) \<Rightarrow>
          (case serveHTTP (k res) ops s1 of
             (tr, s') \<Rightarrow> (WriteCall b res # tr, s')))"

subsection \<open>The response capture wrapper\<close>

text \<open>
  \<^verbatim>\<open>type responseWriter struct { http.ResponseWriter; statusCode int; body *bytes.Buffer }\<close>
\<close>

record 's responseWriter =
  ResponseWriter :: 's
  statusCode :: int
  body :: bytes

definition WriteHeader ::
  "'s http_ResponseWriter \<Rightarrow> int \<Rightarrow> 's responseWriter \<Rightarrow> 's responseWriter" where
  "WriteHeader ops code rw =
     (let rw1 = rw\<lparr>statusCode := code\<rparr>
      in rw1\<lparr>ResponseWriter := rwWriteHeader ops code (ResponseWriter rw1)\<rparr>)"

definition Write ::
  "'s http_ResponseWriter \<Rightarrow> bytes \<Rightarrow> 's responseWriter \<Rightarrow>
     (int \<times> err option) \<times> 's responseWriter" where
  "Write ops b rw =
     (let rw1 = rw\<lparr>body := body rw @ b\<rparr>
      in case rwWrite ops b (ResponseWriter rw1) of
           (res, s') \<Rightarrow> (res, rw1\<lparr>ResponseWriter := s'\<rparr>))"

text \<open>The method set of \<^verbatim>\<open>*responseWriter\<close>, over the methods of the sink it embeds.\<close>

definition responseWriter_methods ::
  "'s http_ResponseWriter \<Rightarrow> 's responseWriter http_ResponseWriter" where
  "responseWriter_methods ops = \<lparr>rwWriteHeader = WriteHeader ops, rwWrite = Write ops\<rparr>"

subsection \<open>Client identifier and address\<close>

text \<open>
  The loop of \<^verbatim>\<open>getIPAddress\<close> over the header names: \<open>Some\<close> is the early return,
  \<open>None\<close> falls out of the loop.
\<close>

fun getIPAddress_headers :: "request \<Rightarrow> string list \<Rightarrow> (panic + string) option" where
  "getIPAddress_headers r [] = None"
| "getIPAddress_headers r (header # headers) =
     (let ip = Header_Get (Header r) header
      in if ip \<noteq> [] then Some (index (strings_Split ip CHR '','') 0)
         else getIPAddress_headers r headers)"

definition getIPAddress :: "request \<Rightarrow> panic + string" where
  "getIPAddress r =
     (case getIPAddress_headers r [''X-Forwarded-For'', ''X-Real-IP''] of
        Some res \<Rightarrow> res
      | None \<Rightarrow> index (strings_Split (RemoteAddr r) CHR '':'') 0)"

definition getClientID :: "request \<Rightarrow> panic + string" where
  "getClientID r =
     (case Request_Cookie r ''_ga'' of
        Inr cookie \<Rightarrow> Inr (Value cookie)
      | Inl _ \<Rightarrow>
          (case getIPAddress r of
             Inl p \<Rightarrow> Inl p
           | Inr ip \<Rightarrow> Inr (ip @ UserAgent r)))"

subsection \<open>Dispatch to the collector\<close>

record Analytics =
  TrackingID :: string
  Enabled :: bool
  EndpointURL :: string

text \<open>A Go value of type \<^verbatim>\<open>interface{}\<close> as the event data holds them.\<close>

datatype val =
    VString string
  | VInt int
  | VSlice "val list"
  | VMap "(string \<times> val) list"

datatype level = InfoLevel | ErrorLevel

datatype field = ErrField err | StrField string string | IntField string int | Int64Field string int

datatype log_line = Log level "field list" string

record http_request =
  reqMethod :: string
  reqURL :: string
  reqHeader :: header
  reqBody :: bytes

record http_response =
  StatusCode :: int
  RespBody :: reader

text \<open>
  What the package calls outside itself when it dispatches: \<^verbatim>\<open>json.Marshal\<close>, the URL
  check inside \<^verbatim>\<open>http.NewRequest\<close> (its error, if any), and \<^verbatim>\<open>client.Do\<close> with its
  five-second timeout, which gives a transport error or the collector's response.
\<close>

record env =
  json_Marshal :: "val \<Rightarrow> err + bytes"
  url_Parse :: "string \<Rightarrow> err option"
  client_Do :: "http_request \<Rightarrow> err + http_response"

definition http_NewRequest :: "env \<Rightarrow> string \<Rightarrow> string \<Rightarrow> bytes \<Rightarrow> err + http_request" where
  "http_NewRequest e method url b =
     (case url_Parse e url of
        Some er \<Rightarrow> Inl er
      | None \<Rightarrow> Inr \<lparr>reqMethod = method, reqURL = url, reqHeader = Map.empty, reqBody = b\<rparr>)"

text \<open>
  What one run of \<^verbatim>\<open>sendToGA\<close> did: the requests it handed to \<^verbatim>\<open>client.Do\<close>, and the
  lines it logged.
\<close>

record ga_result =
  attempts :: "http_request list"
  logged :: "log_line list"

definition sendToGA :: "env \<Rightarrow> Analytics \<Rightarrow> val \<Rightarrow> ga_result" where
  "sendToGA e a eventData =
     (let url = EndpointURL a @ ''?measurement_id='' @ TrackingID a @ ''&api_secret=YOUR_API_SECRET''
      in case json_Marshal e eventData of
           Inl er \<Rightarrow>
             \<lparr>attempts = [],
              logged = [Log ErrorLevel [ErrField er] ''Failed to marshal analytics data'']\<rparr>
         | Inr jsonData \<Rightarrow>
             (case http_NewRequest e ''POST'' url jsonData of
                Inl er \<Rightarrow>
                  \<lparr>attempts = [],
                   logged = [Log ErrorLevel [ErrField er] ''Failed to create analytics request'']\<rparr>
              | Inr req0 \<Rightarrow>
                  (let req = req0\<lparr>reqHeader :=
                               Header_Set (reqHeader req0) ''Content-Type'' ''application/json''\<rparr>
                   in case client_Do e req of
                        Inl er \<Rightarrow>
                          \<lparr>attempts = [req],
                           logged = [Log ErrorLevel [ErrField er] ''Failed to send analytics data'']\<rparr>
                      | Inr resp \<Rightarrow>
                          (if StatusCode resp \<noteq> 200 \<and> StatusCode resp \<noteq> 204
                           then (case ReadAll (RespBody resp) of
                                   (rbody, _) \<Rightarrow>
                                     \<lparr>attempts = [req],
                                      logged = [Log ErrorLevel
                                                  [IntField ''status'' (StatusCode resp),
                                                   StrField ''response'' rbody]
                                                  ''Analytics request failed'']\<rparr>)
                           else \<lparr>attempts = [req], logged = []\<rparr>))))"

subsection \<open>The middleware\<close>

text \<open>Lines 64 to 66 of \<^verbatim>\<open>Handler\<close>: the default collector endpoint.\<close>

definition Handler_init :: "Analytics \<Rightarrow> Analytics" where
  "Handler_init a =
     (if EndpointURL a = []
      then a\<lparr>EndpointURL := ''https://www.google-analytics.com/mp/collect''\<rparr>
      else a)"

text \<open>Lines 87 to 92: the request body is read whole and put back.\<close>

definition restoreBody :: "request \<Rightarrow> request" where
  "restoreBody r =
     (case Body r of
        None \<Rightarrow> r
      | Some b \<Rightarrow>
          (case ReadAll b of
             (requestBody, _) \<Rightarrow> r\<lparr>Body := Some (bytes_NewBuffer requestBody)\<rparr>))"

text \<open>
  What serving one request did: the final state of the sink \<open>w\<close> the caller gave, the
  calls the downstream handler made on the writer it was given, the wrapper if one
  was built, the event data handed to \<^verbatim>\<open>go a.sendToGA\<close>, the lines logged, and a panic if
  one was raised.
\<close>

record 's outcome =
  sink :: 's
  calls :: "call list"
  captured :: "'s responseWriter option"
  spawned :: "val list"
  hlog :: "log_line list"
  panicked :: "panic option"

text \<open>
  The function that \<^verbatim>\<open>Handler\<close> returns, applied to the next handler and to one request.
  \<open>elapsed\<close> is what \<^verbatim>\<open>time.Since(startTime)\<close> gives, in nanoseconds.
\<close>

definition Handler_func ::
  "Analytics \<Rightarrow> handler \<Rightarrow> 's http_ResponseWriter \<Rightarrow> 's \<Rightarrow> request \<Rightarrow> int \<Rightarrow> 's outcome" where
  "Handler_func a next ops w r0 elapsed =
     (if \<not> Enabled a \<or> TrackingID a = [] then
        (case serveHTTP (next r0) ops w of
           (tr, w') \<Rightarrow>
             \<lparr>sink = w', calls = tr, captured = None, spawned = [], hlog = [],
              panicked = None\<rparr>)
      else
        (let wrappedWriter0 = \<lparr>ResponseWriter = w, statusCode = 200, body = []\<rparr>;
             r = restoreBody r0
         in case serveHTTP (next r) (responseWriter_methods ops) wrappedWriter0 of
              (tr, wrappedWriter) \<Rightarrow>
                (let duration = Milliseconds elapsed;
                     stopped = (\<lambda>p. \<lparr>sink = ResponseWriter wrappedWriter, calls = tr,
                                      captured = Some wrappedWriter, spawned = [], hlog = [],
                                      panicked = Some p\<rparr>)
                 in case getClientID r of
                      Inl p \<Rightarrow> stopped p
                    | Inr clientID \<Rightarrow>
                        (case getIPAddress r of
                           Inl p \<Rightarrow> stopped p
                         | Inr ipAddress \<Rightarrow>
                             (let eventData =
                                    VMap [(''client_id'', VString clientID),
                                          (''events'', VSlice [VMap
                                             [(''name'', VString ''api_request''),
                                              (''params'', VMap
                                                 [(''path'', VString (URL_Path r)),
                                                  (''method'', VString (Method r)),
                                                  (''status_code'', VInt (statusCode wrappedWriter)),
                                                  (''response_time_ms'', VInt duration),
                                                  (''user_agent'', VString (UserAgent r)),
                                                  (''ip_address'', VString ipAddress)])]])]
                              in \<lparr>sink = ResponseWriter wrappedWriter, calls = tr,
                                  captured = Some wrappedWriter,
                                  spawned = [eventData],
                                  hlog = [Log InfoLevel
                                            [StrField ''path'' (URL_Path r),
                                             StrField ''method'' (Method r),
                                             IntField ''status'' (statusCode wrappedWriter),
                                             Int64Field ''duration_ms'' duration]
                                            ''Analytics tracking sent''],
                                  panicked = None\<rparr>)))))"

text \<open>
  \<^verbatim>\<open>a.Handler()(next).ServeHTTP(w, r)\<close>, with what the goroutines it started did: each
  runs \<^verbatim>\<open>sendToGA\<close> on its event data, with no access to the writer.
\<close>

definition Handler ::
  "env \<Rightarrow> Analytics \<Rightarrow> handler \<Rightarrow> 's http_ResponseWriter \<Rightarrow> 's \<Rightarrow> request \<Rightarrow> int \<Rightarrow>
     's outcome \<times> ga_result list" where
  "Handler e a0 next ops w r elapsed =
     (let a = Handler_init a0;
          out = Handler_func a next ops w r elapsed
      in (out, map (sendToGA e a) (spawned out)))"

subsection \<open>Reading a handler's calls, and sinks to run the model on\<close>

text \<open>
  The status a sequence of calls leaves behind: the code of its last
  \<^verbatim>\<open>WriteHeader\<close>, or the given default when it has none.
\<close>

fun lastStatus :: "int \<Rightarrow> call list \<Rightarrow> int" where
  "lastStatus d [] = d"
| "lastStatus d (WriteHeaderCall code # tr) = lastStatus code tr"
| "lastStatus d (WriteCall b res # tr) = lastStatus d tr"

text \<open>The byte slices passed to \<^verbatim>\<open>Write\<close>, concatenated in call order.\<close>

fun written :: "call list \<Rightarrow> bytes" where
  "written [] = []"
| "written (WriteHeaderCall code # tr) = written tr"
| "written (WriteCall b res # tr) = b @ written tr"

text \<open>
  A sink in the manner of \<^verbatim>\<open>httptest.ResponseRecorder\<close>, which the package's test
  serves into: the first status set is the one that counts, a write before any status
  sets 200, and every write is taken whole.
\<close>

record recorder =
  Code :: int
  wroteHeader :: bool
  Recorded :: bytes

definition NewRecorder :: recorder where
  "NewRecorder = \<lparr>Code = 200, wroteHeader = False, Recorded = []\<rparr>"

definition recorder_WriteHeader :: "int \<Rightarrow> recorder \<Rightarrow> recorder" where
  "recorder_WriteHeader code rec =
     (if wroteHeader rec then rec else rec\<lparr>Code := code, wroteHeader := True\<rparr>)"

definition recorder_Write :: "bytes \<Rightarrow> recorder \<Rightarrow> (int \<times> err option) \<times> recorder" where
  "recorder_Write b rec =
     (let rec1 = (if wroteHeader rec then rec else recorder_WriteHeader 200 rec)
      in ((int (length b), None), rec1\<lparr>Recorded := Recorded rec1 @ b\<rparr>))"

definition recorder_methods :: "recorder http_ResponseWriter" where
  "recorder_methods = \<lparr>rwWriteHeader = recorder_WriteHeader, rwWrite = recorder_Write\<rparr>"

text \<open>A sink whose connection is gone: every write fails and delivers nothing.\<close>

definition broken_methods :: "recorder http_ResponseWriter" where
  "broken_methods =
     \<lparr>rwWriteHeader = recorder_WriteHeader,
      rwWrite = (\<lambda>b rec. ((0, Some ''write: broken pipe''), rec))\<rparr>"

text \<open>
  The remote address without its port, as the specification words it: what stands
  before the last colon, or the whole address when it has no colon.
\<close>

definition spec_stripPort :: "string \<Rightarrow> string" where
  "spec_stripPort addr =
     (if CHR '':'' \<in> set addr
      then rev (tl (dropWhile (\<lambda>c. c \<noteq> CHR '':'') (rev addr)))
      else addr)"

text \<open>
  The body of the outbound call as the specification draws it: \<open>client_id\<close> and one
  event named \<open>api_request\<close> with its six parameters.
\<close>

definition spec_eventBody ::
  "string \<Rightarrow> string \<Rightarrow> string \<Rightarrow> int \<Rightarrow> int \<Rightarrow> string \<Rightarrow> string \<Rightarrow> val" where
  "spec_eventBody clientID path method status responseTimeMs userAgent ipAddress =
     VMap [(''client_id'', VString clientID),
           (''events'', VSlice [VMap
              [(''name'', VString ''api_request''),
               (''params'', VMap
                  [(''path'', VString path),
                   (''method'', VString method),
                   (''status_code'', VInt status),
                   (''response_time_ms'', VInt responseTimeMs),
                   (''user_agent'', VString userAgent),
                   (''ip_address'', VString ipAddress)])]])]"

text \<open>The request the outbound call carries, for the given configuration and body.\<close>

definition spec_outbound :: "Analytics \<Rightarrow> bytes \<Rightarrow> http_request" where
  "spec_outbound a jsonData =
     \<lparr>reqMethod = ''POST'',
      reqURL = EndpointURL a @ ''?measurement_id='' @ TrackingID a @ ''&api_secret=YOUR_API_SECRET'',
      reqHeader = [''Content-Type'' \<mapsto> [''application/json'']],
      reqBody = jsonData\<rparr>"

subsection \<open>The package's test, and collectors to run the model against\<close>

text \<open>
  The pieces of \<^verbatim>\<open>TestAnalyticsInterceptor\<close>: its handler, its request (a GET of
  \<^verbatim>\<open>/test-path\<close> with a user agent and the \<^verbatim>\<open>_ga\<close> cookie, from the address
  \<^verbatim>\<open>httptest.NewRequest\<close> gives), and its configuration, which has tracking off.
\<close>

definition testHandler :: handler where
  "testHandler r = CallWriteHeader 200 (CallWrite ''Test response'' (\<lambda>res. Return))"

definition testRequest :: request where
  "testRequest =
     \<lparr>Method = ''GET'', URL_Path = ''/test-path'',
      Header = [''User-Agent'' \<mapsto> [''Test User Agent'']],
      Cookies = [\<lparr>Name = ''_ga'', Value = ''test-client-id''\<rparr>],
      RemoteAddr = ''192.0.2.1:1234'',
      Body = None\<rparr>"

definition testAnalytics :: Analytics where
  "testAnalytics = \<lparr>TrackingID = ''G-TEST123'', Enabled = False, EndpointURL = []\<rparr>"

text \<open>The same configuration with tracking on.\<close>

definition enabledAnalytics :: Analytics where
  "enabledAnalytics = \<lparr>TrackingID = ''G-TEST123'', Enabled = True, EndpointURL = []\<rparr>"

text \<open>
  A request that came through a proxy, without the \<^verbatim>\<open>_ga\<close> cookie, and a request
  straight from an IPv6 peer, whose remote address net/http writes as
  \<^verbatim>\<open>[host]:port\<close>.
\<close>

definition forwardedRequest :: request where
  "forwardedRequest =
     \<lparr>Method = ''GET'', URL_Path = ''/v1/config'',
      Header = [''X-Forwarded-For'' \<mapsto> [''1.2.3.4, 5.6.6.6''], ''User-Agent'' \<mapsto> [''UA1'']],
      Cookies = [],
      RemoteAddr = ''9.9.9.9:4444'',
      Body = None\<rparr>"

definition ipv6Request :: request where
  "ipv6Request =
     \<lparr>Method = ''GET'', URL_Path = ''/v1/config'',
      Header = [''User-Agent'' \<mapsto> [''UA1'']],
      Cookies = [],
      RemoteAddr = ''[::1]:4444'',
      Body = None\<rparr>"

text \<open>A request with a body whose read breaks off after two chunks.\<close>

definition brokenBodyRequest :: request where
  "brokenBodyRequest =
     \<lparr>Method = ''POST'', URL_Path = ''/v1/track'',
      Header = [''X-Forwarded-For'' \<mapsto> [''1.2.3.4, 5.6.6.6''], ''User-Agent'' \<mapsto> [''UA1'']],
      Cookies = [],
      RemoteAddr = ''9.9.9.9:4444'',
      Body = Some (Data ''user='' (Data ''42'' (Failure ''unexpected EOF'')))\<rparr>"

text \<open>The same request with a body that arrives whole, in two chunks.\<close>

definition postRequest :: request where
  "postRequest = brokenBodyRequest\<lparr>Body := Some (Data ''user='' (Data ''42'' EOF))\<rparr>"

text \<open>A handler that answers with the request body it reads, or 400 when the read fails.\<close>

definition echoHandler :: handler where
  "echoHandler r =
     (case Body r of
        None \<Rightarrow> CallWriteHeader 204 Return
      | Some b \<Rightarrow>
          (case ReadAll b of
             (content, None) \<Rightarrow> CallWrite content (\<lambda>res. Return)
           | (content, Some er) \<Rightarrow> CallWriteHeader 400 Return))"

text \<open>
  A collector that answers every call with status 500, and an environment in which
  the event cannot be encoded.
\<close>

definition collector500 :: env where
  "collector500 =
     \<lparr>json_Marshal = (\<lambda>v. Inr ''{}''),
      url_Parse = (\<lambda>u. None),
      client_Do = (\<lambda>req. Inr \<lparr>StatusCode = 500, RespBody = Data ''internal error'' EOF\<rparr>)\<rparr>"

definition collector204 :: env where
  "collector204 =
     \<lparr>json_Marshal = (\<lambda>v. Inr ''{}''),
      url_Parse = (\<lambda>u. None),
      client_Do = (\<lambda>req. Inr \<lparr>StatusCode = 204, RespBody = EOF\<rparr>)\<rparr>"

definition unencodable :: env where
  "unencodable =
     \<lparr>json_Marshal = (\<lambda>v. Inl ''json: unsupported value''),
      url_Parse = (\<lambda>u. None),
      client_Do = (\<lambda>req. Inl ''unreachable'')\<rparr>"

section \<open>Properties\<close>

subsection \<open>Auxiliary facts\<close>

lemma index_strings_Split_0:
  "index (strings_Split s sep) 0 = Inr (takeWhile (\<lambda>c. c \<noteq> sep) s)"
proof (cases "dropWhile (\<lambda>c. c \<noteq> sep) s")
  case Nil
  have split: "strings_Split s sep = [s]"
    by (subst strings_Split.simps) (simp only: Nil list.case)
  from Nil have "\<forall>c\<in>set s. c \<noteq> sep" by simp
  then have "takeWhile (\<lambda>c. c \<noteq> sep) s = s"
    by (simp only: takeWhile_eq_all_conv)
  then show ?thesis by (simp only: split index_def) simp
next
  case (Cons x rest)
  have "strings_Split s sep = takeWhile (\<lambda>c. c \<noteq> sep) s # strings_Split rest sep"
    by (subst strings_Split.simps) (simp only: Cons list.case)
  then show ?thesis by (simp add: index_def)
qed

lemma responseWriter_methods_sel:
  "rwWriteHeader (responseWriter_methods ops) = WriteHeader ops"
  "rwWrite (responseWriter_methods ops) = Write ops"
  by (simp_all add: responseWriter_methods_def)

lemma serveHTTP_responseWriter:
  "serveHTTP p (responseWriter_methods ops) rw =
     (case serveHTTP p ops (ResponseWriter rw) of
        (tr, s') \<Rightarrow>
          (tr, \<lparr>ResponseWriter = s', statusCode = lastStatus (statusCode rw) tr,
                body = body rw @ written tr\<rparr>))"
proof (induction p arbitrary: rw)
  case Return
  show ?case by simp
next
  case (CallWriteHeader code p)
  show ?case
    by (simp add: CallWriteHeader.IH responseWriter_methods_sel WriteHeader_def
        split: prod.splits)
next
  case (CallWrite b k)
  show ?case
    by (simp add: CallWrite.IH responseWriter_methods_sel Write_def split: prod.splits)
qed

lemma canonical_keys:
  "CanonicalMIMEHeaderKey ''X-Forwarded-For'' = ''X-Forwarded-For''"
  "CanonicalMIMEHeaderKey ''X-Real-IP'' = ''X-Real-Ip''"
  "CanonicalMIMEHeaderKey ''User-Agent'' = ''User-Agent''"
  "CanonicalMIMEHeaderKey ''Content-Type'' = ''Content-Type''"
  by (simp_all add: CanonicalMIMEHeaderKey_def validHeaderFieldByte_def toUpper_def toLower_def
      Let_def)

lemma getIPAddress_eq:
  "getIPAddress r =
     Inr (if Header_Get (Header r) ''X-Forwarded-For'' \<noteq> []
          then takeWhile (\<lambda>c. c \<noteq> CHR '','') (Header_Get (Header r) ''X-Forwarded-For'')
          else if Header_Get (Header r) ''X-Real-IP'' \<noteq> []
          then takeWhile (\<lambda>c. c \<noteq> CHR '','') (Header_Get (Header r) ''X-Real-IP'')
          else takeWhile (\<lambda>c. c \<noteq> CHR '':'') (RemoteAddr r))"
  by (simp add: getIPAddress_def Let_def index_strings_Split_0)

lemma restoreBody_fields:
  "Method (restoreBody r) = Method r"
  "URL_Path (restoreBody r) = URL_Path r"
  "Header (restoreBody r) = Header r"
  "Cookies (restoreBody r) = Cookies r"
  "RemoteAddr (restoreBody r) = RemoteAddr r"
  by (simp_all add: restoreBody_def split: option.splits prod.splits)

lemma getIPAddress_restoreBody: "getIPAddress (restoreBody r) = getIPAddress r"
  by (simp add: getIPAddress_eq restoreBody_fields)

lemma UserAgent_restoreBody: "UserAgent (restoreBody r) = UserAgent r"
  by (simp add: UserAgent_def restoreBody_fields)

lemma getClientID_restoreBody: "getClientID (restoreBody r) = getClientID r"
  by (simp add: getClientID_def Request_Cookie_def restoreBody_fields
      getIPAddress_restoreBody UserAgent_restoreBody split: option.splits sum.splits)

lemmas restoreBody_derived =
  getIPAddress_restoreBody UserAgent_restoreBody getClientID_restoreBody

lemma ReadAll_bytes_NewBuffer: "ReadAll (bytes_NewBuffer p) = (p, None)"
  by (simp add: bytes_NewBuffer_def)

lemma Handler_init_fields:
  "Enabled (Handler_init a) = Enabled a"
  "TrackingID (Handler_init a) = TrackingID a"
  by (simp_all add: Handler_init_def)

lemma getClientID_total: "\<exists>cid. getClientID r = Inr cid"
  by (simp add: getClientID_def getIPAddress_eq split: sum.splits)

lemma Handler_func_disabled:
  assumes "\<not> Enabled a \<or> TrackingID a = []"
  shows "Handler_func a next ops w r el =
           \<lparr>sink = snd (serveHTTP (next r) ops w), calls = fst (serveHTTP (next r) ops w),
            captured = None, spawned = [], hlog = [], panicked = None\<rparr>"
  using assms by (auto simp add: Handler_func_def split: prod.splits)

lemma Handler_func_enabled:
  assumes on: "Enabled a" "TrackingID a \<noteq> []"
    and run: "serveHTTP (next (restoreBody r)) ops w = (tr, s')"
    and cid: "getClientID r = Inr cid"
    and ip: "getIPAddress r = Inr ip"
  shows "Handler_func a next ops w r el =
           \<lparr>sink = s', calls = tr,
            captured = Some \<lparr>ResponseWriter = s', statusCode = lastStatus 200 tr,
                             body = written tr\<rparr>,
            spawned = [spec_eventBody cid (URL_Path r) (Method r) (lastStatus 200 tr)
                         (Milliseconds el) (UserAgent r) ip],
            hlog = [Log InfoLevel
                      [StrField ''path'' (URL_Path r), StrField ''method'' (Method r),
                       IntField ''status'' (lastStatus 200 tr),
                       Int64Field ''duration_ms'' (Milliseconds el)]
                      ''Analytics tracking sent''],
            panicked = None\<rparr>"
  using on
  by (simp add: Handler_func_def Let_def serveHTTP_responseWriter run restoreBody_derived
      restoreBody_fields cid ip spec_eventBody_def)

lemma Handler_fst: "fst (Handler e a next ops w r el) = Handler_func (Handler_init a) next ops w r el"
  by (simp add: Handler_def Let_def)

lemma Handler_snd:
  "snd (Handler e a next ops w r el) =
     map (sendToGA e (Handler_init a)) (spawned (Handler_func (Handler_init a) next ops w r el))"
  by (simp add: Handler_def Let_def)

lemma Handler_enabled_outcome:
  assumes on: "Enabled a \<and> TrackingID a \<noteq> []"
  shows "\<exists>cid ip. getClientID r = Inr cid \<and> getIPAddress r = Inr ip \<and>
           fst (Handler e a next ops w r el) =
             \<lparr>sink = snd (serveHTTP (next (restoreBody r)) ops w),
              calls = fst (serveHTTP (next (restoreBody r)) ops w),
              captured = Some
                \<lparr>ResponseWriter = snd (serveHTTP (next (restoreBody r)) ops w),
                 statusCode = lastStatus 200 (fst (serveHTTP (next (restoreBody r)) ops w)),
                 body = written (fst (serveHTTP (next (restoreBody r)) ops w))\<rparr>,
              spawned = [spec_eventBody cid (URL_Path r) (Method r)
                           (lastStatus 200 (fst (serveHTTP (next (restoreBody r)) ops w)))
                           (Milliseconds el) (UserAgent r) ip],
              hlog = [Log InfoLevel
                        [StrField ''path'' (URL_Path r), StrField ''method'' (Method r),
                         IntField ''status''
                           (lastStatus 200 (fst (serveHTTP (next (restoreBody r)) ops w))),
                         Int64Field ''duration_ms'' (Milliseconds el)]
                        ''Analytics tracking sent''],
              panicked = None\<rparr>"
proof -
  obtain cid where cid: "getClientID r = Inr cid"
    using getClientID_total by blast
  obtain ip where ip: "getIPAddress r = Inr ip"
    by (simp add: getIPAddress_eq)
  obtain tr s' where run: "serveHTTP (next (restoreBody r)) ops w = (tr, s')"
    by (cases "serveHTTP (next (restoreBody r)) ops w")
  from on have on': "Enabled (Handler_init a)" "TrackingID (Handler_init a) \<noteq> []"
    by (simp_all add: Handler_init_fields)
  have "Handler_func (Handler_init a) next ops w r el =
           \<lparr>sink = s', calls = tr,
            captured = Some \<lparr>ResponseWriter = s', statusCode = lastStatus 200 tr,
                             body = written tr\<rparr>,
            spawned = [spec_eventBody cid (URL_Path r) (Method r) (lastStatus 200 tr)
                         (Milliseconds el) (UserAgent r) ip],
            hlog = [Log InfoLevel
                      [StrField ''path'' (URL_Path r), StrField ''method'' (Method r),
                       IntField ''status'' (lastStatus 200 tr),
                       Int64Field ''duration_ms'' (Milliseconds el)]
                      ''Analytics tracking sent''],
            panicked = None\<rparr>"
    using on' run cid ip by (rule Handler_func_enabled)
  with cid ip run show ?thesis
    by (simp add: Handler_fst)
qed


text \<open>
  Where the fallback of \<open>getIPAddress\<close> does strip the port: a remote address with a
  single colon, as an IPv4 peer has.
\<close>

lemma takeWhile_upto_sep: "sep \<notin> set h \<Longrightarrow> takeWhile (\<lambda>c. c \<noteq> sep) (h @ sep # t) = h"
  by (induction h) auto

lemma dropWhile_upto_sep: "sep \<notin> set h \<Longrightarrow> dropWhile (\<lambda>c. c \<noteq> sep) (h @ sep # t) = sep # t"
  by (induction h) auto

lemma stripPort_one_colon:
  assumes "CHR '':'' \<notin> set h" "CHR '':'' \<notin> set t"
  shows "takeWhile (\<lambda>c. c \<noteq> CHR '':'') (h @ CHR '':'' # t) = spec_stripPort (h @ CHR '':'' # t)"
proof -
  from assms(2) have "CHR '':'' \<notin> set (rev t)" by simp
  then have "dropWhile (\<lambda>c. c \<noteq> CHR '':'') (rev t @ CHR '':'' # rev h) = CHR '':'' # rev h"
    by (rule dropWhile_upto_sep)
  then have "spec_stripPort (h @ CHR '':'' # t) = h"
    by (simp add: spec_stripPort_def)
  with assms(1) show ?thesis
    by (simp add: takeWhile_upto_sep)
qed


lemma Header_Set_content_type:
  "Header_Set Map.empty ''Content-Type'' ''application/json'' =
     [''Content-Type'' \<mapsto> [''application/json'']]"
  by (simp add: Header_Set_def canonical_keys)

lemma sendToGA_marshal_failed:
  assumes "json_Marshal e ev = Inl er"
  shows "sendToGA e a ev =
           \<lparr>attempts = [],
            logged = [Log ErrorLevel [ErrField er] ''Failed to marshal analytics data'']\<rparr>"
  using assms by (simp add: sendToGA_def)

lemma sendToGA_bad_url:
  assumes "json_Marshal e ev = Inr js" "url_Parse e (reqURL (spec_outbound a js)) = Some er"
  shows "sendToGA e a ev =
           \<lparr>attempts = [],
            logged = [Log ErrorLevel [ErrField er] ''Failed to create analytics request'']\<rparr>"
  using assms by (simp add: sendToGA_def http_NewRequest_def spec_outbound_def)

lemma sendToGA_transport_failed:
  assumes "json_Marshal e ev = Inr js" "url_Parse e (reqURL (spec_outbound a js)) = None"
    "client_Do e (spec_outbound a js) = Inl er"
  shows "sendToGA e a ev =
           \<lparr>attempts = [spec_outbound a js],
            logged = [Log ErrorLevel [ErrField er] ''Failed to send analytics data'']\<rparr>"
  using assms
  by (simp add: sendToGA_def http_NewRequest_def spec_outbound_def Header_Set_content_type)

lemma sendToGA_answered:
  assumes "json_Marshal e ev = Inr js" "url_Parse e (reqURL (spec_outbound a js)) = None"
    "client_Do e (spec_outbound a js) = Inr resp"
  shows "sendToGA e a ev =
           \<lparr>attempts = [spec_outbound a js],
            logged = (if StatusCode resp = 200 \<or> StatusCode resp = 204 then []
                      else [Log ErrorLevel
                              [IntField ''status'' (StatusCode resp),
                               StrField ''response'' (fst (ReadAll (RespBody resp)))]
                              ''Analytics request failed''])\<rparr>"
  using assms
  by (auto simp add: sendToGA_def http_NewRequest_def spec_outbound_def Header_Set_content_type
      split: prod.splits)

lemma sendToGA_attempts:
  "attempts (sendToGA e a ev) =
     (case json_Marshal e ev of
        Inl er \<Rightarrow> []
      | Inr js \<Rightarrow>
          (case url_Parse e (reqURL (spec_outbound a js)) of
             Some er \<Rightarrow> []
           | None \<Rightarrow> [spec_outbound a js]))"
proof (cases "json_Marshal e ev")
  case (Inl er)
  then show ?thesis by (simp add: sendToGA_marshal_failed)
next
  case (Inr js)
  show ?thesis
  proof (cases "url_Parse e (reqURL (spec_outbound a js))")
    case (Some er)
    with Inr show ?thesis by (simp add: sendToGA_bad_url)
  next
    case None
    show ?thesis
    proof (cases "client_Do e (spec_outbound a js)")
      case (Inl er)
      with Inr None show ?thesis by (simp add: sendToGA_transport_failed)
    next
      case (Inr resp)
      with \<open>json_Marshal e ev = Inr js\<close> None show ?thesis
        by (simp add: sendToGA_answered)
    qed
  qed
qed


lemma Handler_enabled_dispatch:
  assumes on: "Enabled a \<and> TrackingID a \<noteq> []"
  shows "\<exists>cid ip. getClientID r = Inr cid \<and> getIPAddress r = Inr ip \<and>
           spawned (fst (Handler e a next ops w r el)) =
             [spec_eventBody cid (URL_Path r) (Method r)
                (lastStatus 200 (calls (fst (Handler e a next ops w r el))))
                (Milliseconds el) (UserAgent r) ip] \<and>
           snd (Handler e a next ops w r el) =
             [sendToGA e (Handler_init a)
                (spec_eventBody cid (URL_Path r) (Method r)
                   (lastStatus 200 (calls (fst (Handler e a next ops w r el))))
                   (Milliseconds el) (UserAgent r) ip)]"
proof -
  from Handler_enabled_outcome [OF on, of r e "next" ops w el]
  obtain cid ip where cid: "getClientID r = Inr cid" and ip: "getIPAddress r = Inr ip"
    and out: "fst (Handler e a next ops w r el) =
             \<lparr>sink = snd (serveHTTP (next (restoreBody r)) ops w),
              calls = fst (serveHTTP (next (restoreBody r)) ops w),
              captured = Some
                \<lparr>ResponseWriter = snd (serveHTTP (next (restoreBody r)) ops w),
                 statusCode = lastStatus 200 (fst (serveHTTP (next (restoreBody r)) ops w)),
                 body = written (fst (serveHTTP (next (restoreBody r)) ops w))\<rparr>,
              spawned = [spec_eventBody cid (URL_Path r) (Method r)
                           (lastStatus 200 (fst (serveHTTP (next (restoreBody r)) ops w)))
                           (Milliseconds el) (UserAgent r) ip],
              hlog = [Log InfoLevel
                        [StrField ''path'' (URL_Path r), StrField ''method'' (Method r),
                         IntField ''status''
                           (lastStatus 200 (fst (serveHTTP (next (restoreBody r)) ops w))),
                         Int64Field ''duration_ms'' (Milliseconds el)]
                        ''Analytics tracking sent''],
              panicked = None\<rparr>"
    by blast
  have "snd (Handler e a next ops w r el) =
          map (sendToGA e (Handler_init a)) (spawned (fst (Handler e a next ops w r el)))"
    by (simp add: Handler_snd Handler_fst)
  with cid ip out show ?thesis by simp
qed


subsection \<open>The claims\<close>

text \<open>
  Claim C1. With tracking on, what reaches the caller's sink is what the downstream
  handler wrote: \<open>WriteHeader\<close> of the wrapper hands the same code to the sink,
  \<open>Write\<close> hands it the same bytes and returns the sink's own count and error, and so
  serving through the wrapper leaves the sink in the state, and shows the handler the
  return values, that running the handler on the bare sink gives. This holds for
  every program of calls a handler may run; in \<open>Handler\<close> the program is the one the
  next handler runs on the request it is passed, the request with its body put back.
\<close>

theorem responseWriter_transparent:
  "ResponseWriter (WriteHeader ops code rw) = rwWriteHeader ops code (ResponseWriter rw) \<and>
   fst (Write ops b rw) = fst (rwWrite ops b (ResponseWriter rw)) \<and>
   ResponseWriter (snd (Write ops b rw)) = snd (rwWrite ops b (ResponseWriter rw)) \<and>
   fst (serveHTTP p (responseWriter_methods ops) rw) = fst (serveHTTP p ops (ResponseWriter rw)) \<and>
   ResponseWriter (snd (serveHTTP p (responseWriter_methods ops) rw)) =
     snd (serveHTTP p ops (ResponseWriter rw)) \<and>
   (Enabled a \<and> TrackingID a \<noteq> [] \<longrightarrow>
      (calls (fst (Handler e a next ops w r el)), sink (fst (Handler e a next ops w r el))) =
        serveHTTP (next (restoreBody r)) ops w)"
proof (intro conjI impI)
  show "fst (serveHTTP p (responseWriter_methods ops) rw) = fst (serveHTTP p ops (ResponseWriter rw))"
    by (simp add: serveHTTP_responseWriter split: prod.splits)
  show "ResponseWriter (snd (serveHTTP p (responseWriter_methods ops) rw)) =
     snd (serveHTTP p ops (ResponseWriter rw))"
    by (simp add: serveHTTP_responseWriter split: prod.splits)
  show "ResponseWriter (WriteHeader ops code rw) = rwWriteHeader ops code (ResponseWriter rw)"
    by (simp add: WriteHeader_def)
  show "fst (Write ops b rw) = fst (rwWrite ops b (ResponseWriter rw))"
    by (simp add: Write_def split: prod.splits)
  show "ResponseWriter (snd (Write ops b rw)) = snd (rwWrite ops b (ResponseWriter rw))"
    by (simp add: Write_def split: prod.splits)
next
  assume on: "Enabled a \<and> TrackingID a \<noteq> []"
  from Handler_enabled_outcome [OF on, of r e "next" ops w el]
  obtain out where "fst (Handler e a next ops w r el) = out"
    and "sink out = snd (serveHTTP (next (restoreBody r)) ops w)"
    and "calls out = fst (serveHTTP (next (restoreBody r)) ops w)"
    by auto
  then show "(calls (fst (Handler e a next ops w r el)), sink (fst (Handler e a next ops w r el))) =
        serveHTTP (next (restoreBody r)) ops w"
    by simp
qed

theorem responseWriter_transparent_witness:
  "Enabled enabledAnalytics \<and> TrackingID enabledAnalytics \<noteq> [] \<and>
   ResponseWriter (WriteHeader recorder_methods 404
      \<lparr>ResponseWriter = NewRecorder, statusCode = 200, body = []\<rparr>) =
     \<lparr>Code = 404, wroteHeader = True, Recorded = []\<rparr> \<and>
   fst (Write recorder_methods ''hi''
      \<lparr>ResponseWriter = NewRecorder, statusCode = 200, body = []\<rparr>) = (2, None) \<and>
   (calls (fst (Handler collector500 enabledAnalytics testHandler recorder_methods NewRecorder
                  testRequest 50000000)),
    sink (fst (Handler collector500 enabledAnalytics testHandler recorder_methods NewRecorder
                 testRequest 50000000))) =
     ([WriteHeaderCall 200, WriteCall ''Test response'' (13, None)],
      \<lparr>Code = 200, wroteHeader = True, Recorded = ''Test response''\<rparr>)"
  using responseWriter_transparent [of recorder_methods 404
      "\<lparr>ResponseWriter = NewRecorder, statusCode = 200, body = []\<rparr>" "''hi''" Return
      enabledAnalytics collector500 testHandler NewRecorder testRequest 50000000]
  by (simp add: enabledAnalytics_def testHandler_def recorder_methods_def NewRecorder_def
      recorder_WriteHeader_def recorder_Write_def)


text \<open>
  Claim C2. When \<open>Enabled\<close> is false or \<open>TrackingID\<close> is empty, the downstream handler
  is run on the original request against the original sink, no wrapper is built, no
  event is handed to a goroutine, nothing is logged and no outbound call is made.
\<close>

theorem disabled_bypass:
  "\<not> Enabled a \<or> TrackingID a = [] \<Longrightarrow>
   Handler e a next ops w r el =
     (\<lparr>sink = snd (serveHTTP (next r) ops w), calls = fst (serveHTTP (next r) ops w),
       captured = None, spawned = [], hlog = [], panicked = None\<rparr>, [])"
proof -
  assume off: "\<not> Enabled a \<or> TrackingID a = []"
  then have "\<not> Enabled (Handler_init a) \<or> TrackingID (Handler_init a) = []"
    by (simp add: Handler_init_fields)
  then have "Handler_func (Handler_init a) next ops w r el =
      \<lparr>sink = snd (serveHTTP (next r) ops w), calls = fst (serveHTTP (next r) ops w),
       captured = None, spawned = [], hlog = [], panicked = None\<rparr>"
    by (rule Handler_func_disabled)
  then show ?thesis
    by (simp add: Handler_def Let_def)
qed

theorem disabled_bypass_witness:
  "\<not> Enabled testAnalytics \<and>
   Handler collector500 testAnalytics testHandler recorder_methods NewRecorder testRequest 0 =
     (\<lparr>sink = \<lparr>Code = 200, wroteHeader = True, Recorded = ''Test response''\<rparr>,
       calls = [WriteHeaderCall 200, WriteCall ''Test response'' (13, None)],
       captured = None, spawned = [], hlog = [], panicked = None\<rparr>, [])"
proof -
  have off: "\<not> Enabled testAnalytics \<or> TrackingID testAnalytics = []"
    by (simp add: testAnalytics_def)
  have "\<not> Enabled testAnalytics"
    by (simp add: testAnalytics_def)
  then show ?thesis
    using disabled_bypass [OF off, of collector500 testHandler recorder_methods NewRecorder
        testRequest 0]
    by (simp add: testHandler_def recorder_methods_def NewRecorder_def
        recorder_WriteHeader_def recorder_Write_def)
qed

text \<open>
  Claim C3. Whatever calls the downstream handler makes on the wrapper, the wrapper's
  \<open>statusCode\<close> ends as the code of the last \<open>WriteHeader\<close> call, or as the value it
  began with (200 in \<open>Handler\<close>) when there was none, and its buffer ends as what it
  held before followed by every slice passed to \<open>Write\<close>, in call order: it only
  grows.
\<close>

theorem captured_response_invariant:
  "statusCode (snd (serveHTTP p (responseWriter_methods ops) rw)) =
     lastStatus (statusCode rw) (fst (serveHTTP p (responseWriter_methods ops) rw)) \<and>
   body (snd (serveHTTP p (responseWriter_methods ops) rw)) =
     body rw @ written (fst (serveHTTP p (responseWriter_methods ops) rw)) \<and>
   prefix (body rw) (body (snd (serveHTTP p (responseWriter_methods ops) rw))) \<and>
   (Enabled a \<and> TrackingID a \<noteq> [] \<longrightarrow>
      captured (fst (Handler e a next ops w r el)) =
        Some \<lparr>ResponseWriter = sink (fst (Handler e a next ops w r el)),
              statusCode = lastStatus 200 (calls (fst (Handler e a next ops w r el))),
              body = written (calls (fst (Handler e a next ops w r el)))\<rparr>)"
proof (intro conjI impI)
  show "statusCode (snd (serveHTTP p (responseWriter_methods ops) rw)) =
     lastStatus (statusCode rw) (fst (serveHTTP p (responseWriter_methods ops) rw))"
    by (simp add: serveHTTP_responseWriter split: prod.splits)
  show grows: "body (snd (serveHTTP p (responseWriter_methods ops) rw)) =
     body rw @ written (fst (serveHTTP p (responseWriter_methods ops) rw))"
    by (simp add: serveHTTP_responseWriter split: prod.splits)
  show "prefix (body rw) (body (snd (serveHTTP p (responseWriter_methods ops) rw)))"
    by (simp only: grows prefixI)
next
  assume on: "Enabled a \<and> TrackingID a \<noteq> []"
  from Handler_enabled_outcome [OF on, of r e "next" ops w el]
  obtain cid ip where out: "fst (Handler e a next ops w r el) =
             \<lparr>sink = snd (serveHTTP (next (restoreBody r)) ops w),
              calls = fst (serveHTTP (next (restoreBody r)) ops w),
              captured = Some
                \<lparr>ResponseWriter = snd (serveHTTP (next (restoreBody r)) ops w),
                 statusCode = lastStatus 200 (fst (serveHTTP (next (restoreBody r)) ops w)),
                 body = written (fst (serveHTTP (next (restoreBody r)) ops w))\<rparr>,
              spawned = [spec_eventBody cid (URL_Path r) (Method r)
                           (lastStatus 200 (fst (serveHTTP (next (restoreBody r)) ops w)))
                           (Milliseconds el) (UserAgent r) ip],
              hlog = [Log InfoLevel
                        [StrField ''path'' (URL_Path r), StrField ''method'' (Method r),
                         IntField ''status''
                           (lastStatus 200 (fst (serveHTTP (next (restoreBody r)) ops w))),
                         Int64Field ''duration_ms'' (Milliseconds el)]
                        ''Analytics tracking sent''],
              panicked = None\<rparr>"
    by blast
  show "captured (fst (Handler e a next ops w r el)) =
        Some \<lparr>ResponseWriter = sink (fst (Handler e a next ops w r el)),
              statusCode = lastStatus 200 (calls (fst (Handler e a next ops w r el))),
              body = written (calls (fst (Handler e a next ops w r el)))\<rparr>"
    by (simp add: out)
qed

theorem captured_response_invariant_witness:
  "Enabled enabledAnalytics \<and> TrackingID enabledAnalytics \<noteq> [] \<and>
   statusCode (snd (serveHTTP
       (CallWriteHeader 201 (CallWrite ''ab'' (\<lambda>res. CallWriteHeader 404 (CallWrite ''cd'' (\<lambda>res. Return)))))
       (responseWriter_methods recorder_methods)
       \<lparr>ResponseWriter = NewRecorder, statusCode = 200, body = []\<rparr>)) = 404 \<and>
   body (snd (serveHTTP
       (CallWriteHeader 201 (CallWrite ''ab'' (\<lambda>res. CallWriteHeader 404 (CallWrite ''cd'' (\<lambda>res. Return)))))
       (responseWriter_methods recorder_methods)
       \<lparr>ResponseWriter = NewRecorder, statusCode = 200, body = []\<rparr>)) = ''abcd'' \<and>
   captured (fst (Handler collector500 enabledAnalytics testHandler recorder_methods NewRecorder
                    testRequest 50000000)) =
     Some \<lparr>ResponseWriter = \<lparr>Code = 200, wroteHeader = True, Recorded = ''Test response''\<rparr>,
           statusCode = 200, body = ''Test response''\<rparr>"
proof -
  have run: "serveHTTP
       (CallWriteHeader 201 (CallWrite ''ab'' (\<lambda>res. CallWriteHeader 404 (CallWrite ''cd'' (\<lambda>res. Return)))))
       (responseWriter_methods recorder_methods)
       \<lparr>ResponseWriter = NewRecorder, statusCode = 200, body = []\<rparr> =
     ([WriteHeaderCall 201, WriteCall ''ab'' (2, None), WriteHeaderCall 404,
       WriteCall ''cd'' (2, None)],
      \<lparr>ResponseWriter = \<lparr>Code = 201, wroteHeader = True, Recorded = ''abcd''\<rparr>,
       statusCode = 404, body = ''abcd''\<rparr>)"
    by (simp add: responseWriter_methods_sel WriteHeader_def Write_def recorder_methods_def
        NewRecorder_def recorder_WriteHeader_def recorder_Write_def)
  have on: "Enabled enabledAnalytics \<and> TrackingID enabledAnalytics \<noteq> []"
    by (simp add: enabledAnalytics_def)
  have served: "fst (Handler collector500 enabledAnalytics testHandler recorder_methods
                  NewRecorder testRequest 50000000) =
                Handler_func (Handler_init enabledAnalytics) testHandler recorder_methods
                  NewRecorder testRequest 50000000"
    by (rule Handler_fst)
  have out: "calls (fst (Handler collector500 enabledAnalytics testHandler recorder_methods
                  NewRecorder testRequest 50000000)) =
               [WriteHeaderCall 200, WriteCall ''Test response'' (13, None)] \<and>
             sink (fst (Handler collector500 enabledAnalytics testHandler recorder_methods
                  NewRecorder testRequest 50000000)) =
               \<lparr>Code = 200, wroteHeader = True, Recorded = ''Test response''\<rparr>"
    using Handler_enabled_outcome [OF on, of testRequest collector500 testHandler
        recorder_methods NewRecorder 50000000]
    by (auto simp add: testHandler_def recorder_methods_def NewRecorder_def
        recorder_WriteHeader_def recorder_Write_def)
  show ?thesis
    using on out
      captured_response_invariant [of
        "CallWriteHeader 201 (CallWrite ''ab'' (\<lambda>res. CallWriteHeader 404 (CallWrite ''cd'' (\<lambda>res. Return))))"
        recorder_methods "\<lparr>ResponseWriter = NewRecorder, statusCode = 200, body = []\<rparr>"
        enabledAnalytics collector500 testHandler NewRecorder testRequest 50000000]
    unfolding run by simp
qed


text \<open>
  Claim C9. \<open>Write\<close> of the wrapper keeps the bytes in its buffer whatever the sink
  does with them, and returns the sink's count and error as they are: on a sink whose
  write fails and delivers nothing, the buffer holds bytes the caller never received.
\<close>

theorem write_failure_keeps_bytes:
  "body (snd (Write ops b rw)) = body rw @ b \<and>
   fst (Write ops b rw) = fst (rwWrite ops b (ResponseWriter rw)) \<and>
   fst (Write broken_methods ''hello'' \<lparr>ResponseWriter = NewRecorder, statusCode = 200, body = []\<rparr>) =
     (0, Some ''write: broken pipe'') \<and>
   body (snd (Write broken_methods ''hello''
                \<lparr>ResponseWriter = NewRecorder, statusCode = 200, body = []\<rparr>)) = ''hello'' \<and>
   Recorded (ResponseWriter (snd (Write broken_methods ''hello''
                \<lparr>ResponseWriter = NewRecorder, statusCode = 200, body = []\<rparr>))) = []"
  by (simp add: Write_def broken_methods_def NewRecorder_def split: prod.splits)

text \<open>
  Claim C4. \<open>getIPAddress\<close> takes the first entry of \<^verbatim>\<open>X-Forwarded-For\<close>, else of
  \<^verbatim>\<open>X-Real-IP\<close> (see \<open>getIPAddress_eq\<close>), and otherwise is to give the remote address
  with its port suffix stripped. For an IPv6 peer it does not: cutting at the first
  colon leaves only the opening bracket of \<^verbatim>\<open>[::1]:4444\<close>, where stripping the port
  leaves \<^verbatim>\<open>[::1]\<close>.
\<close>

theorem getIPAddress_ipv6_remote_addr:
  "getIPAddress ipv6Request = Inr ''['' \<and>
   spec_stripPort (RemoteAddr ipv6Request) = ''[::1]''"
  by (simp add: getIPAddress_eq ipv6Request_def Header_Get_def canonical_keys
      spec_stripPort_def)


text \<open>
  Claim C5. \<open>getClientID\<close> never panics; it gives the value of the first \<^verbatim>\<open>_ga\<close>
  cookie when the request has one, whatever its headers and remote address, and
  otherwise the address \<open>getIPAddress\<close> derives followed by the user agent as sent.
\<close>

theorem getClientID_cookie_or_address:
  "\<exists>ip. getIPAddress r = Inr ip \<and>
        getClientID r =
          Inr (case find (\<lambda>c. Name c = ''_ga'') (Cookies r) of
                 Some c \<Rightarrow> Value c
               | None \<Rightarrow> ip @ Header_Get (Header r) ''User-Agent'')"
  by (simp add: getClientID_def Request_Cookie_def getIPAddress_eq UserAgent_def
      split: option.splits)

theorem getClientID_cookie_or_address_witness:
  "getIPAddress forwardedRequest = Inr ''1.2.3.4'' \<and>
   getClientID forwardedRequest = Inr ''1.2.3.4UA1'' \<and>
   getClientID (forwardedRequest\<lparr>Cookies := [\<lparr>Name = ''_ga'', Value = ''abc123''\<rparr>]\<rparr>) =
     Inr ''abc123''"
proof -
  have ip: "getIPAddress forwardedRequest = Inr ''1.2.3.4''"
    by (simp add: getIPAddress_eq forwardedRequest_def Header_Get_def canonical_keys)
  have ua: "Header_Get (Header forwardedRequest) ''User-Agent'' = ''UA1''"
    by (simp add: forwardedRequest_def Header_Get_def canonical_keys)
  have none: "find (\<lambda>c. Name c = ''_ga'') (Cookies forwardedRequest) = None"
    by (simp add: forwardedRequest_def)
  from getClientID_cookie_or_address [of forwardedRequest]
  have a: "getClientID forwardedRequest = Inr ''1.2.3.4UA1''"
    by (simp add: ip ua none)
  from getClientID_cookie_or_address
    [of "forwardedRequest\<lparr>Cookies := [\<lparr>Name = ''_ga'', Value = ''abc123''\<rparr>]\<rparr>"]
  have b: "getClientID (forwardedRequest\<lparr>Cookies := [\<lparr>Name = ''_ga'', Value = ''abc123''\<rparr>]\<rparr>) =
     Inr ''abc123''"
    by auto
  from ip a b show ?thesis by simp
qed

text \<open>
  Claim C6. In \<open>sendToGA\<close>, an event that cannot be encoded is logged and nothing is
  sent; a collector response with status 200 or 204 is a success and logs nothing, any
  other response is logged with its status and body; in every case at most one call
  is made (no retry); and the outcome of serving the request (sink, calls, log, panic)
  is the same whatever the encoder and the collector do.
\<close>

theorem sendToGA_failures_contained:
  "(json_Marshal e ev = Inl er \<longrightarrow>
      sendToGA e a ev =
        \<lparr>attempts = [],
         logged = [Log ErrorLevel [ErrField er] ''Failed to marshal analytics data'']\<rparr>) \<and>
   (json_Marshal e ev = Inr js \<and> url_Parse e (reqURL (spec_outbound a js)) = None \<and>
    client_Do e (spec_outbound a js) = Inr resp \<longrightarrow>
      sendToGA e a ev =
        \<lparr>attempts = [spec_outbound a js],
         logged = (if StatusCode resp = 200 \<or> StatusCode resp = 204 then []
                   else [Log ErrorLevel
                           [IntField ''status'' (StatusCode resp),
                            StrField ''response'' (fst (ReadAll (RespBody resp)))]
                           ''Analytics request failed''])\<rparr>) \<and>
   length (attempts (sendToGA e a ev)) \<le> 1 \<and>
   fst (Handler e a next ops w r el) = fst (Handler e' a next ops w r el)"
proof (intro conjI impI)
  assume "json_Marshal e ev = Inl er"
  then show "sendToGA e a ev =
        \<lparr>attempts = [],
         logged = [Log ErrorLevel [ErrField er] ''Failed to marshal analytics data'']\<rparr>"
    by (rule sendToGA_marshal_failed)
next
  assume "json_Marshal e ev = Inr js \<and> url_Parse e (reqURL (spec_outbound a js)) = None \<and>
    client_Do e (spec_outbound a js) = Inr resp"
  then show "sendToGA e a ev =
        \<lparr>attempts = [spec_outbound a js],
         logged = (if StatusCode resp = 200 \<or> StatusCode resp = 204 then []
                   else [Log ErrorLevel
                           [IntField ''status'' (StatusCode resp),
                            StrField ''response'' (fst (ReadAll (RespBody resp)))]
                           ''Analytics request failed''])\<rparr>"
    by (simp add: sendToGA_answered)
next
  show "length (attempts (sendToGA e a ev)) \<le> 1"
    by (simp add: sendToGA_attempts split: sum.splits option.splits)
next
  show "fst (Handler e a next ops w r el) = fst (Handler e' a next ops w r el)"
    by (simp add: Handler_fst)
qed

theorem sendToGA_failures_contained_witness:
  "sendToGA unencodable enabledAnalytics (VMap []) =
     \<lparr>attempts = [],
      logged = [Log ErrorLevel [ErrField ''json: unsupported value'']
                  ''Failed to marshal analytics data'']\<rparr> \<and>
   sendToGA collector500 enabledAnalytics (VMap []) =
     \<lparr>attempts = [spec_outbound enabledAnalytics ''{}''],
      logged = [Log ErrorLevel [IntField ''status'' 500, StrField ''response'' ''internal error'']
                  ''Analytics request failed'']\<rparr> \<and>
   sendToGA collector204 enabledAnalytics (VMap []) =
     \<lparr>attempts = [spec_outbound enabledAnalytics ''{}''], logged = []\<rparr> \<and>
   sink (fst (Handler collector500 enabledAnalytics testHandler recorder_methods NewRecorder
                testRequest 50000000)) =
     sink (fst (Handler collector204 enabledAnalytics testHandler recorder_methods NewRecorder
                  testRequest 50000000))"
  using
    sendToGA_failures_contained [of unencodable "VMap []" "''json: unsupported value''"
      enabledAnalytics "''{}''" "\<lparr>StatusCode = 500, RespBody = Data ''internal error'' EOF\<rparr>"
      testHandler recorder_methods NewRecorder testRequest 50000000 collector204]
    sendToGA_failures_contained [of collector500 "VMap []" "''none''"
      enabledAnalytics "''{}''" "\<lparr>StatusCode = 500, RespBody = Data ''internal error'' EOF\<rparr>"
      testHandler recorder_methods NewRecorder testRequest 50000000 collector204]
    sendToGA_failures_contained [of collector204 "VMap []" "''none''"
      enabledAnalytics "''{}''" "\<lparr>StatusCode = 204, RespBody = EOF\<rparr>"
      testHandler recorder_methods NewRecorder testRequest 50000000 collector500]
  by (simp add: unencodable_def collector500_def collector204_def)

text \<open>
  Claim C7. \<open>sendToGA\<close> makes no call when encoding or building the request fails,
  and otherwise exactly one: a POST to the endpoint URL followed by
  \<^verbatim>\<open>?measurement_id=\<close>, the tracking ID and \<^verbatim>\<open>&api_secret=YOUR_API_SECRET\<close>, with the
  header \<^verbatim>\<open>Content-Type: application/json\<close> and the encoded event as body. With
  tracking on, \<open>Handler\<close> starts one such dispatch, on an event holding \<open>client_id\<close> and
  one \<open>api_request\<close> event with path, method, captured status, elapsed milliseconds,
  user agent and address of the request, under the configuration with its endpoint
  defaulted.
\<close>

theorem outbound_call_shape:
  "attempts (sendToGA e a ev) =
     (let url = EndpointURL a @ ''?measurement_id='' @ TrackingID a @
                ''&api_secret=YOUR_API_SECRET''
      in case json_Marshal e ev of
           Inl er \<Rightarrow> []
         | Inr js \<Rightarrow>
             (case url_Parse e url of
                Some er \<Rightarrow> []
              | None \<Rightarrow>
                  [\<lparr>reqMethod = ''POST'', reqURL = url,
                    reqHeader = [''Content-Type'' \<mapsto> [''application/json'']],
                    reqBody = js\<rparr>])) \<and>
   (Enabled a \<and> TrackingID a \<noteq> [] \<longrightarrow>
      (\<exists>cid ip. getClientID r = Inr cid \<and> getIPAddress r = Inr ip \<and>
         snd (Handler e a next ops w r el) =
           [sendToGA e (Handler_init a)
              (VMap [(''client_id'', VString cid),
                     (''events'', VSlice [VMap
                        [(''name'', VString ''api_request''),
                         (''params'', VMap
                            [(''path'', VString (URL_Path r)),
                             (''method'', VString (Method r)),
                             (''status_code'',
                                VInt (lastStatus 200 (calls (fst (Handler e a next ops w r el))))),
                             (''response_time_ms'', VInt (Milliseconds el)),
                             (''user_agent'', VString (Header_Get (Header r) ''User-Agent'')),
                             (''ip_address'', VString ip)])]])])])) \<and>
   TrackingID (Handler_init a) = TrackingID a \<and>
   EndpointURL (Handler_init a) =
     (if EndpointURL a = [] then ''https://www.google-analytics.com/mp/collect''
      else EndpointURL a)"
proof (intro conjI impI)
  show "attempts (sendToGA e a ev) =
     (let url = EndpointURL a @ ''?measurement_id='' @ TrackingID a @
                ''&api_secret=YOUR_API_SECRET''
      in case json_Marshal e ev of
           Inl er \<Rightarrow> []
         | Inr js \<Rightarrow>
             (case url_Parse e url of
                Some er \<Rightarrow> []
              | None \<Rightarrow>
                  [\<lparr>reqMethod = ''POST'', reqURL = url,
                    reqHeader = [''Content-Type'' \<mapsto> [''application/json'']],
                    reqBody = js\<rparr>]))"
    by (simp add: sendToGA_attempts spec_outbound_def Let_def split: sum.splits option.splits)
next
  assume on: "Enabled a \<and> TrackingID a \<noteq> []"
  from Handler_enabled_dispatch [OF on, of r e "next" ops w el]
  show "\<exists>cid ip. getClientID r = Inr cid \<and> getIPAddress r = Inr ip \<and>
         snd (Handler e a next ops w r el) =
           [sendToGA e (Handler_init a)
              (VMap [(''client_id'', VString cid),
                     (''events'', VSlice [VMap
                        [(''name'', VString ''api_request''),
                         (''params'', VMap
                            [(''path'', VString (URL_Path r)),
                             (''method'', VString (Method r)),
                             (''status_code'',
                                VInt (lastStatus 200 (calls (fst (Handler e a next ops w r el))))),
                             (''response_time_ms'', VInt (Milliseconds el)),
                             (''user_agent'', VString (Header_Get (Header r) ''User-Agent'')),
                             (''ip_address'', VString ip)])]])])]"
    by (auto simp add: spec_eventBody_def UserAgent_def)
next
  show "TrackingID (Handler_init a) = TrackingID a"
    by (simp add: Handler_init_fields)
  show "EndpointURL (Handler_init a) =
     (if EndpointURL a = [] then ''https://www.google-analytics.com/mp/collect''
      else EndpointURL a)"
    by (simp add: Handler_init_def)
qed

theorem outbound_call_shape_witness:
  "Enabled enabledAnalytics \<and> TrackingID enabledAnalytics \<noteq> [] \<and>
   snd (Handler collector204 enabledAnalytics testHandler recorder_methods NewRecorder
          testRequest 50999999) =
     [sendToGA collector204 (Handler_init enabledAnalytics)
        (VMap [(''client_id'', VString ''test-client-id''),
               (''events'', VSlice [VMap
                  [(''name'', VString ''api_request''),
                   (''params'', VMap
                      [(''path'', VString ''/test-path''),
                       (''method'', VString ''GET''),
                       (''status_code'', VInt 200),
                       (''response_time_ms'', VInt 50),
                       (''user_agent'', VString ''Test User Agent''),
                       (''ip_address'', VString ''192.0.2.1'')])]])])] \<and>
   attempts (sendToGA collector204 (Handler_init enabledAnalytics) (VMap [])) =
     [\<lparr>reqMethod = ''POST'',
       reqURL = ''https://www.google-analytics.com/mp/collect?measurement_id=G-TEST123&api_secret=YOUR_API_SECRET'',
       reqHeader = [''Content-Type'' \<mapsto> [''application/json'']],
       reqBody = ''{}''\<rparr>]"
proof -
  have on: "Enabled enabledAnalytics \<and> TrackingID enabledAnalytics \<noteq> []"
    by (simp add: enabledAnalytics_def)
  have cid: "getClientID testRequest = Inr ''test-client-id''"
    by (simp add: getClientID_def Request_Cookie_def testRequest_def)
  have ip: "getIPAddress testRequest = Inr ''192.0.2.1''"
    by (simp add: getIPAddress_eq testRequest_def Header_Get_def canonical_keys)
  have ua: "Header_Get (Header testRequest) ''User-Agent'' = ''Test User Agent''"
    by (simp add: testRequest_def Header_Get_def canonical_keys)
  have req: "URL_Path testRequest = ''/test-path''" "Method testRequest = ''GET''"
    by (simp_all add: testRequest_def)
  have tr: "calls (fst (Handler collector204 enabledAnalytics testHandler recorder_methods
                     NewRecorder testRequest 50999999)) =
            [WriteHeaderCall 200, WriteCall ''Test response'' (13, None)]"
    using Handler_enabled_outcome [OF on, of testRequest collector204 testHandler
        recorder_methods NewRecorder 50999999]
    by (auto simp add: testHandler_def recorder_methods_def NewRecorder_def
        recorder_WriteHeader_def recorder_Write_def)
  have ms: "Milliseconds 50999999 = 50"
    by (simp add: Milliseconds_def)
  have cfg: "Handler_init enabledAnalytics =
               \<lparr>TrackingID = ''G-TEST123'', Enabled = True,
                EndpointURL = ''https://www.google-analytics.com/mp/collect''\<rparr>"
    by (simp add: Handler_init_def enabledAnalytics_def)
  have shape: "attempts (sendToGA collector204 (Handler_init enabledAnalytics) (VMap [])) =
     [\<lparr>reqMethod = ''POST'',
       reqURL = ''https://www.google-analytics.com/mp/collect?measurement_id=G-TEST123&api_secret=YOUR_API_SECRET'',
       reqHeader = [''Content-Type'' \<mapsto> [''application/json'']],
       reqBody = ''{}''\<rparr>]"
    using outbound_call_shape [of collector204 "Handler_init enabledAnalytics" "VMap []"
        testRequest testHandler recorder_methods NewRecorder 50999999]
    by (simp add: cfg collector204_def)
  from outbound_call_shape [of collector204 enabledAnalytics "VMap []"
        testRequest testHandler recorder_methods NewRecorder 50999999] on
  have "snd (Handler collector204 enabledAnalytics testHandler recorder_methods NewRecorder
          testRequest 50999999) =
     [sendToGA collector204 (Handler_init enabledAnalytics)
        (VMap [(''client_id'', VString ''test-client-id''),
               (''events'', VSlice [VMap
                  [(''name'', VString ''api_request''),
                   (''params'', VMap
                      [(''path'', VString ''/test-path''),
                       (''method'', VString ''GET''),
                       (''status_code'', VInt 200),
                       (''response_time_ms'', VInt 50),
                       (''user_agent'', VString ''Test User Agent''),
                       (''ip_address'', VString ''192.0.2.1'')])]])])]"
    by (simp add: cid ip ua req tr ms)
  with on shape show ?thesis by simp
qed


text \<open>
  Claim C8. With tracking on and a body present, the body is read whole before the
  downstream handler runs and replaced by a reader over the bytes read: a read of the
  new body gives the same bytes, and the same result altogether when the first read
  ended without error. Method, path and headers of the request passed on are those
  of the request received, and the downstream handler runs on that request.
\<close>

theorem request_body_restored:
  "Body r = Some b \<Longrightarrow>
   restoreBody r = r\<lparr>Body := Some (bytes_NewBuffer (fst (ReadAll b)))\<rparr> \<and>
   fst (ReadAll (bytes_NewBuffer (fst (ReadAll b)))) = fst (ReadAll b) \<and>
   (snd (ReadAll b) = None \<longrightarrow> ReadAll (bytes_NewBuffer (fst (ReadAll b))) = ReadAll b) \<and>
   Method (restoreBody r) = Method r \<and>
   URL_Path (restoreBody r) = URL_Path r \<and>
   Header (restoreBody r) = Header r \<and>
   (Enabled a \<and> TrackingID a \<noteq> [] \<longrightarrow>
      (calls (fst (Handler e a next ops w r el)), sink (fst (Handler e a next ops w r el))) =
        serveHTTP (next (restoreBody r)) ops w)"
proof (intro conjI impI)
  assume b: "Body r = Some b"
  then show "restoreBody r = r\<lparr>Body := Some (bytes_NewBuffer (fst (ReadAll b)))\<rparr>"
    by (simp add: restoreBody_def split: prod.splits)
  show "fst (ReadAll (bytes_NewBuffer (fst (ReadAll b)))) = fst (ReadAll b)"
    by (simp add: ReadAll_bytes_NewBuffer)
  show "Method (restoreBody r) = Method r" "URL_Path (restoreBody r) = URL_Path r"
    "Header (restoreBody r) = Header r"
    by (simp_all add: restoreBody_fields)
next
  assume "snd (ReadAll b) = None"
  then show "ReadAll (bytes_NewBuffer (fst (ReadAll b))) = ReadAll b"
    by (cases "ReadAll b") (simp add: ReadAll_bytes_NewBuffer)
next
  assume on: "Enabled a \<and> TrackingID a \<noteq> []"
  from Handler_enabled_outcome [OF on, of r e "next" ops w el]
  obtain out where "fst (Handler e a next ops w r el) = out"
    and "sink out = snd (serveHTTP (next (restoreBody r)) ops w)"
    and "calls out = fst (serveHTTP (next (restoreBody r)) ops w)"
    by auto
  then show "(calls (fst (Handler e a next ops w r el)), sink (fst (Handler e a next ops w r el))) =
        serveHTTP (next (restoreBody r)) ops w"
    by simp
qed

theorem request_body_restored_witness:
  "Body postRequest = Some (Data ''user='' (Data ''42'' EOF)) \<and>
   Enabled enabledAnalytics \<and> TrackingID enabledAnalytics \<noteq> [] \<and>
   restoreBody postRequest = postRequest\<lparr>Body := Some (Data ''user=42'' EOF)\<rparr> \<and>
   ReadAll (Data ''user=42'' EOF) = ReadAll (Data ''user='' (Data ''42'' EOF)) \<and>
   sink (fst (Handler collector204 enabledAnalytics echoHandler recorder_methods NewRecorder
                postRequest 0)) =
     \<lparr>Code = 200, wroteHeader = True, Recorded = ''user=42''\<rparr> \<and>
   snd (serveHTTP (echoHandler postRequest) recorder_methods NewRecorder) =
     \<lparr>Code = 200, wroteHeader = True, Recorded = ''user=42''\<rparr>"
proof -
  have b: "Body postRequest = Some (Data ''user='' (Data ''42'' EOF))"
    by (simp add: postRequest_def)
  have on: "Enabled enabledAnalytics \<and> TrackingID enabledAnalytics \<noteq> []"
    by (simp add: enabledAnalytics_def)
  have direct: "snd (serveHTTP (echoHandler postRequest) recorder_methods NewRecorder) =
     \<lparr>Code = 200, wroteHeader = True, Recorded = ''user=42''\<rparr>"
    by (simp add: echoHandler_def b recorder_methods_def NewRecorder_def
        recorder_WriteHeader_def recorder_Write_def)
  from request_body_restored [OF b, of enabledAnalytics collector204 echoHandler
      recorder_methods NewRecorder 0] on
  have r: "restoreBody postRequest = postRequest\<lparr>Body := Some (Data ''user=42'' EOF)\<rparr>"
    and s: "(calls (fst (Handler collector204 enabledAnalytics echoHandler recorder_methods
                           NewRecorder postRequest 0)),
             sink (fst (Handler collector204 enabledAnalytics echoHandler recorder_methods
                          NewRecorder postRequest 0))) =
            serveHTTP (echoHandler (restoreBody postRequest)) recorder_methods NewRecorder"
    by (simp_all add: bytes_NewBuffer_def)
  have "sink (fst (Handler collector204 enabledAnalytics echoHandler recorder_methods
                     NewRecorder postRequest 0)) =
        snd (serveHTTP (echoHandler (restoreBody postRequest)) recorder_methods NewRecorder)"
    using s by (metis snd_conv)
  then have "sink (fst (Handler collector204 enabledAnalytics echoHandler recorder_methods
                     NewRecorder postRequest 0)) =
        \<lparr>Code = 200, wroteHeader = True, Recorded = ''user=42''\<rparr>"
    by (simp add: r echoHandler_def recorder_methods_def NewRecorder_def
        recorder_WriteHeader_def recorder_Write_def)
  with b on r direct show ?thesis by simp
qed

text \<open>
  Claim C10. When the read of the request body breaks off with an error, the error
  is dropped: the downstream handler is given a body that holds the bytes read so far
  and ends cleanly, the outcome is the one of a request whose body was just those
  bytes, no panic is raised, and the only line logged is the usual summary.
\<close>

theorem body_read_error_discarded:
  "Body r = Some b \<Longrightarrow> ReadAll b = (prefix_read, Some er) \<Longrightarrow>
   Enabled a \<and> TrackingID a \<noteq> [] \<Longrightarrow>
   restoreBody r = r\<lparr>Body := Some (bytes_NewBuffer prefix_read)\<rparr> \<and>
   ReadAll (bytes_NewBuffer prefix_read) = (prefix_read, None) \<and>
   Handler e a next ops w r el =
     Handler e a next ops w (r\<lparr>Body := Some (bytes_NewBuffer prefix_read)\<rparr>) el \<and>
   panicked (fst (Handler e a next ops w r el)) = None \<and>
   hlog (fst (Handler e a next ops w r el)) =
     [Log InfoLevel
        [StrField ''path'' (URL_Path r), StrField ''method'' (Method r),
         IntField ''status'' (lastStatus 200 (calls (fst (Handler e a next ops w r el)))),
         Int64Field ''duration_ms'' (Milliseconds el)]
        ''Analytics tracking sent'']"
proof (intro conjI)
  assume b: "Body r = Some b" and rd: "ReadAll b = (prefix_read, Some er)"
    and on: "Enabled a \<and> TrackingID a \<noteq> []"
  show restored: "restoreBody r = r\<lparr>Body := Some (bytes_NewBuffer prefix_read)\<rparr>"
    using b rd by (simp add: restoreBody_def)
  show "ReadAll (bytes_NewBuffer prefix_read) = (prefix_read, None)"
    by (rule ReadAll_bytes_NewBuffer)
  have "restoreBody (r\<lparr>Body := Some (bytes_NewBuffer prefix_read)\<rparr>) =
          r\<lparr>Body := Some (bytes_NewBuffer prefix_read)\<rparr>"
    by (simp add: restoreBody_def ReadAll_bytes_NewBuffer)
  with restored
  have again: "restoreBody (r\<lparr>Body := Some (bytes_NewBuffer prefix_read)\<rparr>) = restoreBody r"
    by simp
  from on have gate: "\<not> (\<not> Enabled (Handler_init a) \<or> TrackingID (Handler_init a) = [])"
    by (simp add: Handler_init_fields)
  have "Handler_func (Handler_init a) next ops w r el =
        Handler_func (Handler_init a) next ops w
          (r\<lparr>Body := Some (bytes_NewBuffer prefix_read)\<rparr>) el"
    unfolding Handler_func_def using gate by (simp only: again if_False)
  then show "Handler e a next ops w r el =
     Handler e a next ops w (r\<lparr>Body := Some (bytes_NewBuffer prefix_read)\<rparr>) el"
    by (simp add: Handler_def Let_def)
  from Handler_enabled_outcome [OF on, of r e "next" ops w el]
  obtain cid ip where out: "fst (Handler e a next ops w r el) =
             \<lparr>sink = snd (serveHTTP (next (restoreBody r)) ops w),
              calls = fst (serveHTTP (next (restoreBody r)) ops w),
              captured = Some
                \<lparr>ResponseWriter = snd (serveHTTP (next (restoreBody r)) ops w),
                 statusCode = lastStatus 200 (fst (serveHTTP (next (restoreBody r)) ops w)),
                 body = written (fst (serveHTTP (next (restoreBody r)) ops w))\<rparr>,
              spawned = [spec_eventBody cid (URL_Path r) (Method r)
                           (lastStatus 200 (fst (serveHTTP (next (restoreBody r)) ops w)))
                           (Milliseconds el) (UserAgent r) ip],
              hlog = [Log InfoLevel
                        [StrField ''path'' (URL_Path r), StrField ''method'' (Method r),
                         IntField ''status''
                           (lastStatus 200 (fst (serveHTTP (next (restoreBody r)) ops w))),
                         Int64Field ''duration_ms'' (Milliseconds el)]
                        ''Analytics tracking sent''],
              panicked = None\<rparr>"
    by blast
  show "panicked (fst (Handler e a next ops w r el)) = None"
    by (simp add: out)
  show "hlog (fst (Handler e a next ops w r el)) =
     [Log InfoLevel
        [StrField ''path'' (URL_Path r), StrField ''method'' (Method r),
         IntField ''status'' (lastStatus 200 (calls (fst (Handler e a next ops w r el)))),
         Int64Field ''duration_ms'' (Milliseconds el)]
        ''Analytics tracking sent'']"
    by (simp add: out)
qed

theorem body_read_error_discarded_witness:
  "Body brokenBodyRequest = Some (Data ''user='' (Data ''42'' (Failure ''unexpected EOF''))) \<and>
   ReadAll (Data ''user='' (Data ''42'' (Failure ''unexpected EOF''))) =
     (''user=42'', Some ''unexpected EOF'') \<and>
   Enabled enabledAnalytics \<and> TrackingID enabledAnalytics \<noteq> [] \<and>
   restoreBody brokenBodyRequest = brokenBodyRequest\<lparr>Body := Some (Data ''user=42'' EOF)\<rparr> \<and>
   fst (Handler collector204 enabledAnalytics echoHandler recorder_methods NewRecorder
          brokenBodyRequest 0) =
     fst (Handler collector204 enabledAnalytics echoHandler recorder_methods NewRecorder
            postRequest 0) \<and>
   hlog (fst (Handler collector204 enabledAnalytics echoHandler recorder_methods NewRecorder
                brokenBodyRequest 0)) =
     [Log InfoLevel
        [StrField ''path'' ''/v1/track'', StrField ''method'' ''POST'',
         IntField ''status'' 200, Int64Field ''duration_ms'' 0]
        ''Analytics tracking sent''] \<and>
   snd (serveHTTP (echoHandler brokenBodyRequest) recorder_methods NewRecorder) =
     \<lparr>Code = 400, wroteHeader = True, Recorded = []\<rparr>"
proof -
  have b: "Body brokenBodyRequest = Some (Data ''user='' (Data ''42'' (Failure ''unexpected EOF'')))"
    by (simp add: brokenBodyRequest_def)
  have rd: "ReadAll (Data ''user='' (Data ''42'' (Failure ''unexpected EOF''))) =
     (''user=42'', Some ''unexpected EOF'')"
    by simp
  have on: "Enabled enabledAnalytics \<and> TrackingID enabledAnalytics \<noteq> []"
    by (simp add: enabledAnalytics_def)
  note inst = body_read_error_discarded [OF b rd on, of collector204 echoHandler
      recorder_methods NewRecorder 0]
  have buf: "bytes_NewBuffer ''user=42'' = Data ''user=42'' EOF"
    by (simp add: bytes_NewBuffer_def)
  from inst have "restoreBody brokenBodyRequest =
      brokenBodyRequest\<lparr>Body := Some (bytes_NewBuffer ''user=42'')\<rparr>"
    by blast
  then have restored:
    "restoreBody brokenBodyRequest = brokenBodyRequest\<lparr>Body := Some (Data ''user=42'' EOF)\<rparr>"
    by (simp add: buf)
  have pb: "Body postRequest = Some (Data ''user='' (Data ''42'' EOF))"
    by (simp add: postRequest_def)
  have same: "restoreBody postRequest = restoreBody brokenBodyRequest"
    by (simp add: restored) (simp add: restoreBody_def postRequest_def buf)
  have gate: "\<not> (\<not> Enabled (Handler_init enabledAnalytics) \<or>
                 TrackingID (Handler_init enabledAnalytics) = [])"
    using on by (simp add: Handler_init_fields)
  have eq: "fst (Handler collector204 enabledAnalytics echoHandler recorder_methods NewRecorder
          brokenBodyRequest 0) =
     fst (Handler collector204 enabledAnalytics echoHandler recorder_methods NewRecorder
            postRequest 0)"
    unfolding Handler_fst Handler_func_def using gate by (simp only: same if_False)
  have run: "serveHTTP (echoHandler (restoreBody brokenBodyRequest)) recorder_methods NewRecorder
               = ([WriteCall ''user=42'' (7, None)],
                  \<lparr>Code = 200, wroteHeader = True, Recorded = ''user=42''\<rparr>)"
    by (simp add: restored echoHandler_def recorder_methods_def NewRecorder_def
        recorder_WriteHeader_def recorder_Write_def)
  have tr: "calls (fst (Handler collector204 enabledAnalytics echoHandler recorder_methods
                     NewRecorder brokenBodyRequest 0)) = [WriteCall ''user=42'' (7, None)]"
    using Handler_enabled_outcome [OF on, of brokenBodyRequest collector204 echoHandler
        recorder_methods NewRecorder 0]
    by (auto simp add: run)
  have fields: "URL_Path brokenBodyRequest = ''/v1/track''" "Method brokenBodyRequest = ''POST''"
    by (simp_all add: brokenBodyRequest_def)
  from inst have "hlog (fst (Handler collector204 enabledAnalytics echoHandler recorder_methods
                NewRecorder brokenBodyRequest 0)) =
     [Log InfoLevel
        [StrField ''path'' (URL_Path brokenBodyRequest),
         StrField ''method'' (Method brokenBodyRequest),
         IntField ''status''
           (lastStatus 200 (calls (fst (Handler collector204 enabledAnalytics echoHandler
              recorder_methods NewRecorder brokenBodyRequest 0)))),
         Int64Field ''duration_ms'' (Milliseconds 0)]
        ''Analytics tracking sent'']"
    by blast
  then have lg: "hlog (fst (Handler collector204 enabledAnalytics echoHandler recorder_methods
                NewRecorder brokenBodyRequest 0)) =
     [Log InfoLevel
        [StrField ''path'' ''/v1/track'', StrField ''method'' ''POST'',
         IntField ''status'' 200, Int64Field ''duration_ms'' 0]
        ''Analytics tracking sent'']"
    by (simp add: tr fields Milliseconds_def)
  have direct: "snd (serveHTTP (echoHandler brokenBodyRequest) recorder_methods NewRecorder) =
     \<lparr>Code = 400, wroteHeader = True, Recorded = []\<rparr>"
    by (simp add: echoHandler_def b recorder_methods_def NewRecorder_def
        recorder_WriteHeader_def recorder_Write_def)
  from b rd on restored eq lg direct show ?thesis by simp
qed

end
